theory Spec2Isabelle
  imports Complex_Main "HOL-Library.Word" "HOL-Library.Log_Nat"
begin

section \<open>Standard output and the message strings\<close>

text \<open>
  What the program writes to \<^verbatim>\<open>std::cout\<close> is kept as the sequence of stream
  insertions: a string, an unsigned number (printed in decimal by the stream), a
  \<^verbatim>\<open>double\<close> (formatted by the stream), \<^verbatim>\<open>std::endl\<close> and \<^verbatim>\<open>std::flush\<close>.
\<close>

datatype token = Str string | Num nat | Dbl rat | Endl | Flush

text \<open>The four global strings of \<^verbatim>\<open>stf.cpp\<close> used in failure messages.\<close>

record message_strings =
  ExpectText :: string
  ActualText :: string
  LHSText :: string
  RHSText :: string

definition AssignMessageStrings :: "message_strings" where
  "AssignMessageStrings =
     \<lparr>ExpectText = ''  expected: '', ActualText = ''    actual: '',
      LHSText = ''  lhs: '', RHSText = ''  rhs: ''\<rparr>"

definition PrintAssertFailed :: "string \<Rightarrow> nat \<Rightarrow> token list" where
  "PrintAssertFailed file line =
     [Endl, Str ''Assertion failed at '', Str file, Str '':'', Num line, Endl]"


section \<open>Byte ranges in memory\<close>

text \<open>
  Memory is a store from addresses to octets; a \<^verbatim>\<open>const void *\<close> is an address and
  \<^verbatim>\<open>left[i]\<close> reads the store at \<open>left + i\<close>. \<^verbatim>\<open>std::size_t\<close> counters are
  natural numbers: the loops below only count up to \<open>len\<close>, so nothing wraps.
\<close>

type_synonym memory = "nat \<Rightarrow> 8 word"

definition hex_digit :: "nat \<Rightarrow> char" where
  "hex_digit d = ''0123456789abcdef'' ! d"

text \<open>\<^verbatim>\<open>std::hex << std::setfill('0') << std::setw(2) << +memory[i]\<close>\<close>

definition hex_octet :: "8 word \<Rightarrow> string" where
  "hex_octet b = [hex_digit (unat b div 16), hex_digit (unat b mod 16)]"

function GetMemoryHex_loop :: "memory \<Rightarrow> nat \<Rightarrow> nat \<Rightarrow> nat \<Rightarrow> string \<Rightarrow> string" where
  "GetMemoryHex_loop mem p len i oss =
     (if i < len
      then GetMemoryHex_loop mem p len (Suc i)
             (oss @ (if i > 0 then '' '' else '''') @ hex_octet (mem (p + i)))
      else oss)"
  by pat_completeness auto
termination
  by (relation "measure (\<lambda>(mem, p, len, i, oss). len - i)") auto

definition GetMemoryHex :: "memory \<Rightarrow> nat \<Rightarrow> nat \<Rightarrow> string" where
  "GetMemoryHex mem p len = GetMemoryHex_loop mem p len 0 ''''"

text \<open>
  The comparison loop of \<^verbatim>\<open>AssertMemoryEqual\<close>. The result is the pair of the loop's
  variables when it is left: \<open>equal\<close> and the index \<open>i\<close> (the index of the
  \<^verbatim>\<open>break\<close>, or \<open>len\<close>).
\<close>

function AssertMemoryEqual_loop :: "memory \<Rightarrow> nat \<Rightarrow> nat \<Rightarrow> nat \<Rightarrow> nat \<Rightarrow> bool \<times> nat" where
  "AssertMemoryEqual_loop mem left right len i =
     (if i < len
      then (if mem (left + i) \<noteq> mem (right + i) then (False, i)
            else AssertMemoryEqual_loop mem left right len (Suc i))
      else (True, i))"
  by pat_completeness auto
termination
  by (relation "measure (\<lambda>(mem, left, right, len, i). len - i)") auto

definition AssertMemoryEqual ::
  "message_strings \<Rightarrow> memory \<Rightarrow> string \<Rightarrow> nat \<Rightarrow> nat \<Rightarrow> nat \<Rightarrow> nat \<Rightarrow> bool \<times> token list" where
  "AssertMemoryEqual g mem file line expected actual len =
     (let left = expected; right = actual;
          equal = fst (AssertMemoryEqual_loop mem left right len 0)
      in if equal then (True, [])
         else (False,
               PrintAssertFailed file line @
               [Str (ExpectText g), Str ''0x'', Str (GetMemoryHex mem left len), Endl,
                Str (ActualText g), Str ''0x'', Str (GetMemoryHex mem right len), Endl]))"

text \<open>\<^verbatim>\<open>AssertMemoryNotEqual\<close> has its own copy of the loop.\<close>

function AssertMemoryNotEqual_loop :: "memory \<Rightarrow> nat \<Rightarrow> nat \<Rightarrow> nat \<Rightarrow> nat \<Rightarrow> bool \<times> nat" where
  "AssertMemoryNotEqual_loop mem left right len i =
     (if i < len
      then (if mem (left + i) \<noteq> mem (right + i) then (False, i)
            else AssertMemoryNotEqual_loop mem left right len (Suc i))
      else (True, i))"
  by pat_completeness auto
termination
  by (relation "measure (\<lambda>(mem, left, right, len, i). len - i)") auto

definition AssertMemoryNotEqual ::
  "message_strings \<Rightarrow> memory \<Rightarrow> string \<Rightarrow> nat \<Rightarrow> nat \<Rightarrow> nat \<Rightarrow> nat \<Rightarrow> bool \<times> token list" where
  "AssertMemoryNotEqual g mem file line lhs rhs len =
     (let left = lhs; right = rhs;
          equal = fst (AssertMemoryNotEqual_loop mem left right len 0)
      in if \<not> equal then (True, [])
         else (False,
               PrintAssertFailed file line @
               [Str (LHSText g), Str ''0x'', Str (GetMemoryHex mem left len), Endl,
                Str (RHSText g), Str ''0x'', Str (GetMemoryHex mem right len), Endl]))"

text \<open>
  The two arrays of test \<^verbatim>\<open>Memory::Test2\<close> (\<^verbatim>\<open>test/memory/test_memory.cpp\<close>),
  laid out at addresses 0 and 4: they differ in their last octet only.
\<close>

definition Memory_Test2 :: memory where
  "Memory_Test2 a = (if a < 8 then [1, 2, 8, 4, 1, 2, 8, 5] ! a else 0)"

section \<open>Floating-point numbers\<close>

text \<open>
  A binary floating-point format is given by its precision \<open>p\<close> (the number of
  significant bits) and its largest exponent \<open>emax\<close>; the smallest exponent of a
  normal number is \<open>1 - emax\<close>. \<^verbatim>\<open>float\<close> is binary32, \<^verbatim>\<open>double\<close> is binary64 and
  \<^verbatim>\<open>long double\<close> is taken as the x87 extended format.
\<close>

record format =
  precision :: nat
  emax :: int

definition binary32 :: format where
  "binary32 = \<lparr>precision = 24, emax = 127\<rparr>"

definition binary64 :: format where
  "binary64 = \<lparr>precision = 53, emax = 1023\<rparr>"

definition x87_extended :: format where
  "x87_extended = \<lparr>precision = 64, emax = 16383\<rparr>"

text \<open>
  A value: a finite number (as the rational it denotes; the sign of zero is not kept),
  an infinity (\<open>Infinity True\<close> is the negative one) or a NaN.
\<close>

datatype fp = Finite rat | Infinity bool | NaN

text \<open>\<open>ilog b a\<close> is the integer \<open>k\<close> with \<open>b ^ k \<le> a < b ^ (k + 1)\<close>, for \<open>a > 0\<close>.\<close>

definition ilog :: "nat \<Rightarrow> rat \<Rightarrow> int" where
  "ilog b a =
     (if 1 \<le> a then int (floorlog b (nat \<lfloor>a\<rfloor>)) - 1
      else - int (floorlog b (nat (\<lceil>1 / a\<rceil> - 1))))"

definition round_half_even :: "rat \<Rightarrow> int" where
  "round_half_even x =
     (let f = \<lfloor>x\<rfloor>; r = x - of_int f
      in if r < 1 / 2 then f else if 1 / 2 < r then f + 1 else if even f then f else f + 1)"

text \<open>
  Rounding to nearest, ties to even, to a number of the format with the exponent not
  bounded above (below \<open>1 - emax\<close> the spacing stays that of the subnormal numbers);
  \<open>round_to\<close> then gives infinity when the rounded number is beyond the largest finite
  one.
\<close>

definition nearest :: "format \<Rightarrow> rat \<Rightarrow> rat" where
  "nearest fmt q =
     (if q = 0 then 0
      else
        let a = \<bar>q\<bar>;
            e = max (ilog 2 a) (1 - emax fmt);
            ulp = power_int 2 (e - (int (precision fmt) - 1))
        in sgn q * (of_int (round_half_even (a / ulp)) * ulp))"

definition round_to :: "format \<Rightarrow> rat \<Rightarrow> fp" where
  "round_to fmt q =
     (let r = nearest fmt q
      in if power_int 2 (emax fmt + 1) \<le> \<bar>r\<bar> then Infinity (r < 0) else Finite r)"

text \<open>Subtraction, absolute value and \<^verbatim>\<open><\<close> on values of one format.\<close>

fun fp_sub :: "format \<Rightarrow> fp \<Rightarrow> fp \<Rightarrow> fp" where
  "fp_sub fmt NaN y = NaN"
| "fp_sub fmt x NaN = NaN"
| "fp_sub fmt (Infinity s) (Infinity t) = (if s = t then NaN else Infinity s)"
| "fp_sub fmt (Infinity s) (Finite b) = Infinity s"
| "fp_sub fmt (Finite a) (Infinity t) = Infinity (\<not> t)"
| "fp_sub fmt (Finite a) (Finite b) = round_to fmt (a - b)"

fun fp_abs :: "fp \<Rightarrow> fp" where
  "fp_abs NaN = NaN"
| "fp_abs (Infinity s) = Infinity False"
| "fp_abs (Finite a) = Finite \<bar>a\<bar>"

fun fp_less :: "fp \<Rightarrow> fp \<Rightarrow> bool" where
  "fp_less NaN y = False"
| "fp_less x NaN = False"
| "fp_less (Infinity s) (Infinity t) = (s \<and> \<not> t)"
| "fp_less (Infinity s) (Finite b) = s"
| "fp_less (Finite a) (Infinity t) = (\<not> t)"
| "fp_less (Finite a) (Finite b) = (a < b)"

text \<open>A decimal literal of the source denotes the number of the format nearest to it.\<close>

definition literal :: "format \<Rightarrow> rat \<Rightarrow> fp" where
  "literal fmt q = round_to fmt q"


section \<open>Callables and exceptions\<close>

text \<open>
  A thrown object is described by its dynamic type, by the classes a handler can bind it
  to by reference besides its own (all its public, unambiguous base classes, the
  ancestors of its type) and by the text of \<^verbatim>\<open>what()\<close> (meaningful for types derived
  from \<^verbatim>\<open>std::exception\<close>).
\<close>

record exception_object =
  dynamic_type :: string
  base_classes :: "string list"
  what :: string

text \<open>The handler \<^verbatim>\<open>catch (const T &)\<close> binds a thrown object of type \<open>T\<close> or derived from \<open>T\<close>.\<close>

definition caught_by :: "string \<Rightarrow> exception_object \<Rightarrow> bool" where
  "caught_by T e = (T = dynamic_type e \<or> T \<in> set (base_classes e))"

text \<open>How one call of a \<^verbatim>\<open>void()\<close> callable ends.\<close>

datatype invocation = Returns | Throws exception_object | NeverReturns

text \<open>
  A \<^verbatim>\<open>std::function<void()>\<close> is empty or holds a target; calling an empty one throws
  \<^verbatim>\<open>std::bad_function_call\<close>.
\<close>

datatype std_function = Empty | Target invocation








section \<open>Durations\<close>

text \<open>
  A \<^verbatim>\<open>std::chrono::nanoseconds\<close> is its signed count of nanoseconds.
  \<^verbatim>\<open>duration_cast\<close> to a coarser unit divides the count and truncates toward zero.
\<close>

definition duration_cast :: "int \<Rightarrow> int \<Rightarrow> int" where
  "duration_cast period d = (if d < 0 then - ((- d) div period) else d div period)"

text \<open>
  \<^verbatim>\<open>FriendlyDuration\<close>: the insertions into the string stream, a \<^verbatim>\<open>double\<close> followed by
  the unit. The \<^verbatim>\<open>double\<close> quotient \<^verbatim>\<open>static_cast<double>(count) / 1000.0\<close> is kept as
  the exact rational; how the stream rounds it to text is not modelled.
\<close>

definition FriendlyDuration :: "int \<Rightarrow> token list" where
  "FriendlyDuration duration =
     (if duration \<ge> 1000000000
      then [Dbl (of_int (duration_cast 1000000 duration) / 1000), Str '' s'']
      else if duration \<ge> 1000000
      then [Dbl (of_int (duration_cast 1000 duration) / 1000), Str '' ms'']
      else [Dbl (of_int (duration_cast 1 duration) / 1000), Str '' us''])"






section \<open>The registry\<close>

text \<open>
  The globals of \<^verbatim>\<open>stf.cpp\<close> that registration writes: the two \<^verbatim>\<open>unique_ptr\<close>s (\<open>None\<close>
  is the null pointer) and the \<^verbatim>\<open>unsigned\<close> counter. A unit test is the tuple of its
  name, its function and its timeout in seconds (\<^verbatim>\<open>unsigned\<close>).
\<close>

type_synonym 'f unit_test = "string \<times> 'f \<times> 32 word"

record 'f registry =
  Unit_Tests :: "'f unit_test list option"
  Unit_Test_Exclusions :: "string list option"
  failed_registrations :: "32 word"

text \<open>The registered tests as a sequence: empty while the vector is not allocated.\<close>

definition registered :: "'f registry \<Rightarrow> 'f unit_test list" where
  "registered s = (case Unit_Tests s of None \<Rightarrow> [] | Some tests \<Rightarrow> tests)"

text \<open>
  Whether the allocating operations throw is given from outside: \<open>make_unique_throws\<close>
  for \<^verbatim>\<open>std::make_unique\<close>, \<open>emplace_back_throws\<close> for \<^verbatim>\<open>emplace_back\<close> (which leaves the
  vector as it was when it throws).
\<close>

record storage =
  make_unique_throws :: bool
  emplace_back_throws :: bool

text \<open>The \<^verbatim>\<open>try\<close> block of \<^verbatim>\<open>RegisterTest\<close>: \<open>Inl\<close> is an exception leaving the block.\<close>

definition RegisterTest_try ::
  "storage \<Rightarrow> string \<Rightarrow> 'f \<Rightarrow> 32 word \<Rightarrow> 'f registry \<Rightarrow> 'f registry + 'f registry" where
  "RegisterTest_try st name test timeout s =
     (case Unit_Tests s of
        None \<Rightarrow>
          if make_unique_throws st then Inl s
          else if emplace_back_throws st then Inl (s\<lparr>Unit_Tests := Some []\<rparr>)
          else Inr (s\<lparr>Unit_Tests := Some ([] @ [(name, test, timeout)])\<rparr>)
      | Some tests \<Rightarrow>
          if emplace_back_throws st then Inl s
          else Inr (s\<lparr>Unit_Tests := Some (tests @ [(name, test, timeout)])\<rparr>))"

definition RegisterTest ::
  "storage \<Rightarrow> string \<Rightarrow> 'f \<Rightarrow> 32 word \<Rightarrow> 'f registry \<Rightarrow> nat \<times> 'f registry" where
  "RegisterTest st name test timeout s =
     (case RegisterTest_try st name test timeout s of
        Inl s' \<Rightarrow> (0, s'\<lparr>failed_registrations := failed_registrations s' + 1\<rparr>)
      | Inr s' \<Rightarrow> (length (registered s'), s'))"

definition ExcludeTest_try :: "storage \<Rightarrow> string \<Rightarrow> 'f registry \<Rightarrow> 'f registry + 'f registry" where
  "ExcludeTest_try st name s =
     (case Unit_Test_Exclusions s of
        None \<Rightarrow>
          if make_unique_throws st then Inl s
          else if emplace_back_throws st then Inl (s\<lparr>Unit_Test_Exclusions := Some []\<rparr>)
          else Inr (s\<lparr>Unit_Test_Exclusions := Some ([] @ [name])\<rparr>)
      | Some names \<Rightarrow>
          if emplace_back_throws st then Inl s
          else Inr (s\<lparr>Unit_Test_Exclusions := Some (names @ [name])\<rparr>))"

definition ExcludeTest :: "storage \<Rightarrow> string \<Rightarrow> 'f registry \<Rightarrow> bool \<times> 'f registry" where
  "ExcludeTest st name s =
     (case ExcludeTest_try st name s of
        Inl s' \<Rightarrow> (False, s'\<lparr>failed_registrations := failed_registrations s' + 1\<rparr>)
      | Inr s' \<Rightarrow> (True, s'))"

text \<open>The globals before the first registration.\<close>

definition initial_registry :: "'f registry" where
  "initial_registry =
     \<lparr>Unit_Tests = None, Unit_Test_Exclusions = None, failed_registrations = 0\<rparr>"

definition Default_Timeout :: "32 word" where
  "Default_Timeout = 600"


section \<open>The runner\<close>

text \<open>
  The state of the process that the runner and the test bodies share: the atomic flag
  \<open>Test_Failed\<close>, the message strings, what has been written to \<^verbatim>\<open>std::cout\<close>, and
  \<open>user\<close>, standing for all other state that test bodies read and write.
\<close>

record 'w process =
  Test_Failed :: bool
  texts :: message_strings
  cout :: "token list"
  user :: 'w

definition print :: "token list \<Rightarrow> 'w process \<Rightarrow> 'w process" where
  "print ts p = p\<lparr>cout := cout p @ ts\<rparr>"

datatype cv_status = cv_status_no_timeout | cv_status_timeout

text \<open>
  What is observed when the runner starts one test on its worker thread and waits:
  \<^item> \<open>thread_error\<close>: the exception thrown on the controlling thread when the
    \<^verbatim>\<open>std::thread\<close> cannot be started (then nothing else happened), or \<open>None\<close>;
  \<^item> \<open>body\<close>: how the call \<^verbatim>\<open>test()\<close> ends on the worker;
  \<^item> \<open>printed\<close>, \<open>failed\<close>, \<open>world\<close>: what the body wrote to \<^verbatim>\<open>std::cout\<close>, the value
    of \<open>Test_Failed\<close> and the rest of the state as the body left them (when the
    controller goes on);
  \<^item> \<open>test_start_time\<close>, \<open>test_end_time\<close>: the two readings of the steady clock, in
    nanoseconds;
  \<^item> \<open>wait_for\<close>: what \<^verbatim>\<open>cv.wait_for(lock, std::chrono::seconds(timeout))\<close> returns.
  A registered test function maps the state it is started in (\<open>Test_Failed\<close> and
  \<open>user\<close>) to such an observation.
\<close>

record 'w supervised_run =
  thread_error :: "exception_object option"
  body :: invocation
  printed :: "token list"
  failed :: bool
  world :: 'w
  test_start_time :: int
  test_end_time :: int
  wait_for :: cv_status

type_synonym 'w test_function = "bool \<Rightarrow> 'w \<Rightarrow> 'w supervised_run"

definition left :: "'w supervised_run \<Rightarrow> 'w process \<Rightarrow> 'w process" where
  "left run p = p\<lparr>cout := cout p @ printed run, Test_Failed := failed run, user := world run\<rparr>"

text \<open>
  The worker's lambda around \<^verbatim>\<open>test()\<close>: an exception leaving the body is reported and
  sets \<open>Test_Failed\<close>; \<open>None\<close> when the body never returns, so that the worker never
  ends.
\<close>

definition worker :: "invocation \<Rightarrow> 'w process \<Rightarrow> 'w process option" where
  "worker r p =
     (case r of
        Returns \<Rightarrow> Some p
      | Throws e \<Rightarrow>
          if caught_by ''std::exception'' e
          then Some ((print [Endl, Str ''Unexpected exception thrown: '', Str (what e), Endl] p)
                       \<lparr>Test_Failed := True\<rparr>)
          else Some ((print [Endl, Str ''Unexpected exception thrown'', Endl] p)
                       \<lparr>Test_Failed := True\<rparr>)
      | NeverReturns \<Rightarrow> None)"

text \<open>The two handlers around the loop of \<^verbatim>\<open>main\<close>.\<close>

definition main_catch :: "exception_object \<Rightarrow> 'w process \<Rightarrow> 'w process" where
  "main_catch e p =
     (if caught_by ''std::exception'' e
      then print [Endl, Str ''Unexpected exception thrown: '', Str (what e), Endl] p
      else print [Endl, Str ''Unexpected exception thrown'', Endl] p)"

text \<open>
  \<^verbatim>\<open>EXIT_FAILURE\<close> of \<^verbatim>\<open><cstdlib>\<close> is 1 on the usual platforms; the properties below use
  only that it is not 0.
\<close>

definition EXIT_FAILURE :: int where
  "EXIT_FAILURE = 1"

text \<open>
  How \<^verbatim>\<open>main\<close> ends: it returns a status, \<^verbatim>\<open>std::exit\<close> is called with a status, or
  \<^verbatim>\<open>test_thread.join()\<close> never returns.
\<close>

datatype ending = Returned int | Exited int | Blocked

text \<open>
  The locals of \<^verbatim>\<open>main\<close> that live across iterations, with the process state; \<open>invoked\<close>
  is a log kept for the proofs: the names of the tests whose worker thread was started,
  in order.
\<close>

record 'w runner =
  proc :: "'w process"
  total_duration :: int
  invoked :: "string list"

text \<open>The search of the exclusion vector, with its \<^verbatim>\<open>break\<close>.\<close>

fun exclusion_loop :: "string list \<Rightarrow> string \<Rightarrow> bool" where
  "exclusion_loop [] name = False"
| "exclusion_loop (exclusion # rest) name =
     (if exclusion = name then True else exclusion_loop rest name)"

definition exclude_test :: "string list option \<Rightarrow> string \<Rightarrow> bool" where
  "exclude_test exclusions name =
     (case exclusions of None \<Rightarrow> False | Some names \<Rightarrow> exclusion_loop names name)"

text \<open>
  One iteration of the loop over the registered tests. The second component is \<open>None\<close>
  when the loop goes on to the next test and the way \<^verbatim>\<open>main\<close> ends otherwise.
\<close>

definition run_test ::
  "string list option \<Rightarrow> 'w test_function unit_test \<Rightarrow> 'w runner \<Rightarrow> 'w runner \<times> ending option" where
  "run_test exclusions unit_test r =
     (case unit_test of (name, test, timeout) \<Rightarrow>
        if exclude_test exclusions name
        then (r\<lparr>proc := print [Str ''Excluding test '', Str name, Endl] (proc r)\<rparr>, None)
        else
          let p1 = print [Str ''Running test '', Str name, Flush] (proc r);
              run = test (Test_Failed p1) (user p1)
          in case thread_error run of
               Some e \<Rightarrow> (r\<lparr>proc := main_catch e p1\<rparr>, Some (Returned EXIT_FAILURE))
             | None \<Rightarrow>
                 let r2 = r\<lparr>invoked := invoked r @ [name]\<rparr> in
                 if wait_for run = cv_status_timeout
                 then (r2\<lparr>proc :=
                           print [Endl, Str (''Test '' @ [CHR 0x22]), Str name,
                                  Str (CHR 0x22 # '' exceeded ''), Num (unat timeout),
                                  Str '' second timeout; terminating'', Endl]
                             (left run p1)\<rparr>,
                       Some (Exited EXIT_FAILURE))
                 else
                   (case worker (body run) (left run p1) of
                      None \<Rightarrow> (r2\<lparr>proc := left run p1\<rparr>, Some Blocked)
                    | Some p2 \<Rightarrow>
                        if Test_Failed p2
                        then (r2\<lparr>proc := p2\<rparr>, Some (Returned EXIT_FAILURE))
                        else
                          let test_duration = test_end_time run - test_start_time run
                          in (r2\<lparr>proc :=
                                    print ([Str '' (''] @ FriendlyDuration test_duration @
                                           [Str '')'', Endl]) p2,
                                  total_duration := total_duration r2 + test_duration\<rparr>,
                              None)))"

fun for_loop ::
  "string list option \<Rightarrow> 'w test_function unit_test list \<Rightarrow> 'w runner \<Rightarrow>
     'w runner \<times> ending option" where
  "for_loop exclusions [] r = (r, None)"
| "for_loop exclusions (unit_test # rest) r =
     (case run_test exclusions unit_test r of
        (r', None) \<Rightarrow> for_loop exclusions rest r'
      | (r', Some e) \<Rightarrow> (r', Some e))"

text \<open>The state in which the loop is entered, and what \<^verbatim>\<open>main\<close> does after the loop.\<close>

definition loop_entry :: "'w test_function registry \<Rightarrow> 'w process \<Rightarrow> 'w runner" where
  "loop_entry g p =
     \<lparr>proc = print [Str ''Total numbers of tests: '', Num (length (registered g)), Endl]
               (p\<lparr>texts := AssignMessageStrings\<rparr>),
      total_duration = 0, invoked = []\<rparr>"

definition after_loop :: "'w runner \<times> ending option \<Rightarrow> 'w runner \<times> ending" where
  "after_loop res =
     (case res of
        (r, Some e) \<Rightarrow> (r, e)
      | (r, None) \<Rightarrow>
          (r\<lparr>proc := print ([Str ''All test(s) passed successfully (''] @
                             FriendlyDuration (total_duration r) @ [Str '' total)'', Endl])
                       (proc r)\<rparr>,
           Returned 0))"

definition main :: "'w test_function registry \<Rightarrow> 'w process \<Rightarrow> 'w runner \<times> ending" where
  "main g p =
     (if Unit_Tests g = None \<or> registered g = []
      then (\<lparr>proc = print [Str ''Error: there are no registered tests'', Endl] p,
             total_duration = 0, invoked = []\<rparr>,
            Returned EXIT_FAILURE)
      else if failed_registrations g \<noteq> 0
      then (\<lparr>proc = print [Str ''Error: '', Num (unat (failed_registrations g)),
                           Str '' tests failed to register to get excluded'', Endl] p,
             total_duration = 0, invoked = []\<rparr>,
            Returned EXIT_FAILURE)
      else after_loop (for_loop (Unit_Test_Exclusions g) (registered g) (loop_entry g p)))"


section \<open>The tests of the repository used as concrete inputs\<close>

text \<open>
  \<^verbatim>\<open>test/miscellaneous/test_miscellaneous.cpp\<close> registers four tests and excludes two of
  them. \<open>passing\<close> is a body whose assertions hold; \<open>failing\<close> is the body
  \<^verbatim>\<open>STF_ASSERT_TRUE(false)\<close>, which prints the banner, sets \<open>Test_Failed\<close> and returns
  (it also counts in \<open>user\<close>, to make a run of it visible); \<open>hanging\<close> is a body that
  never returns, with the wait running into the timeout.
\<close>

definition passing :: "nat test_function" where
  "passing f w =
     \<lparr>thread_error = None, body = Returns, printed = [], failed = f, world = w,
      test_start_time = 1000, test_end_time = 2500, wait_for = cv_status_no_timeout\<rparr>"

definition failing :: "nat test_function" where
  "failing f w =
     \<lparr>thread_error = None, body = Returns,
      printed = PrintAssertFailed ''test_miscellaneous.cpp'' 30, failed = True,
      world = Suc w, test_start_time = 3000, test_end_time = 4000,
      wait_for = cv_status_no_timeout\<rparr>"

definition hanging :: "nat test_function" where
  "hanging f w =
     \<lparr>thread_error = None, body = NeverReturns, printed = [], failed = f, world = w,
      test_start_time = 3000, test_end_time = 0, wait_for = cv_status_timeout\<rparr>"

definition Miscellaneous :: "nat test_function registry" where
  "Miscellaneous =
     \<lparr>Unit_Tests = Some [(''Miscellaneous::TestToRun'', passing, 600),
                         (''Miscellaneous::TestToExclude'', failing, 600),
                         (''Miscellaneous::AnotherTestToRun'', passing, 600),
                         (''Miscellaneous::SecondTestToExclude'', failing, 600)],
      Unit_Test_Exclusions = Some [''Miscellaneous::TestToExclude'',
                                   ''Miscellaneous::SecondTestToExclude''],
      failed_registrations = 0\<rparr>"

text \<open>The same run with nothing excluded, and a run whose second test stalls.\<close>

definition Nothing_excluded :: "nat test_function registry" where
  "Nothing_excluded = Miscellaneous\<lparr>Unit_Test_Exclusions := None\<rparr>"

definition Stalled :: "nat test_function registry" where
  "Stalled =
     \<lparr>Unit_Tests = Some [(''Miscellaneous::TestToRun'', passing, 600),
                         (''Miscellaneous::Stalls'', hanging, 2),
                         (''Miscellaneous::AnotherTestToRun'', passing, 600)],
      Unit_Test_Exclusions = None,
      failed_registrations = 0\<rparr>"

text \<open>The runner after \<^verbatim>\<open>Miscellaneous::TestToRun\<close> has passed as the first of \<open>n\<close> tests.\<close>

definition after_TestToRun :: "nat \<Rightarrow> nat runner" where
  "after_TestToRun n =
     \<lparr>proc =
        \<lparr>Test_Failed = False, texts = AssignMessageStrings,
         cout = [Str ''Total numbers of tests: '', Num n, Endl,
                 Str ''Running test '', Str ''Miscellaneous::TestToRun'', Flush,
                 Str '' ('', Dbl (3 / 2), Str '' us'', Str '')'', Endl],
         user = 0\<rparr>,
      total_duration = 1500, invoked = [''Miscellaneous::TestToRun'']\<rparr>"

definition at_start :: "nat process" where
  "at_start =
     \<lparr>Test_Failed = False,
      texts = \<lparr>ExpectText = '''', ActualText = '''', LHSText = '''', RHSText = ''''\<rparr>,
      cout = [], user = 0\<rparr>"


section \<open>Properties of the byte-range assertions\<close>

declare GetMemoryHex_loop.simps [simp del]
declare AssertMemoryEqual_loop.simps [simp del]
declare AssertMemoryNotEqual_loop.simps [simp del]

lemma AssertMemoryEqual_loop_spec:
  "AssertMemoryEqual_loop mem l r n i = (eq, k) \<Longrightarrow> i \<le> n \<Longrightarrow>
     i \<le> k \<and> k \<le> n \<and> (\<forall>j. i \<le> j \<and> j < k \<longrightarrow> mem (l + j) = mem (r + j)) \<and>
     (if eq then k = n else k < n \<and> mem (l + k) \<noteq> mem (r + k))"
proof (induction mem l r n i rule: AssertMemoryEqual_loop.induct)
  case (1 mem left right len i)
  show ?case
  proof (cases "i < len")
    case False
    then have "AssertMemoryEqual_loop mem left right len i = (True, i)"
      by (subst AssertMemoryEqual_loop.simps) simp
    with False "1.prems" show ?thesis by auto
  next
    case True
    show ?thesis
    proof (cases "mem (left + i) \<noteq> mem (right + i)")
      case True
      with \<open>i < len\<close> have "AssertMemoryEqual_loop mem left right len i = (False, i)"
        by (subst AssertMemoryEqual_loop.simps) simp
      with True \<open>i < len\<close> "1.prems" show ?thesis by auto
    next
      case False
      with \<open>i < len\<close>
      have "AssertMemoryEqual_loop mem left right len i =
            AssertMemoryEqual_loop mem left right len (Suc i)"
        by (subst AssertMemoryEqual_loop.simps) simp
      with "1.prems"
      have step: "AssertMemoryEqual_loop mem left right len (Suc i) = (eq, k)" by simp
      have "Suc i \<le> len" using \<open>i < len\<close> by simp
      from "1.IH" [OF \<open>i < len\<close> False step this]
      have ih: "Suc i \<le> k" "k \<le> len"
        "\<forall>j. Suc i \<le> j \<and> j < k \<longrightarrow> mem (left + j) = mem (right + j)"
        "if eq then k = len else k < len \<and> mem (left + k) \<noteq> mem (right + k)"
        by simp_all
      have "\<forall>j. i \<le> j \<and> j < k \<longrightarrow> mem (left + j) = mem (right + j)"
      proof (intro allI impI)
        fix j assume "i \<le> j \<and> j < k"
        then consider "j = i" | "Suc i \<le> j \<and> j < k" by fastforce
        then show "mem (left + j) = mem (right + j)"
          using False ih(3) by cases auto
      qed
      with ih show ?thesis by simp
    qed
  qed
qed

lemma AssertMemoryNotEqual_loop_spec:
  "AssertMemoryNotEqual_loop mem l r n i = (eq, k) \<Longrightarrow> i \<le> n \<Longrightarrow>
     i \<le> k \<and> k \<le> n \<and> (\<forall>j. i \<le> j \<and> j < k \<longrightarrow> mem (l + j) = mem (r + j)) \<and>
     (if eq then k = n else k < n \<and> mem (l + k) \<noteq> mem (r + k))"
proof (induction mem l r n i rule: AssertMemoryNotEqual_loop.induct)
  case (1 mem left right len i)
  show ?case
  proof (cases "i < len")
    case False
    then have "AssertMemoryNotEqual_loop mem left right len i = (True, i)"
      by (subst AssertMemoryNotEqual_loop.simps) simp
    with False "1.prems" show ?thesis by auto
  next
    case True
    show ?thesis
    proof (cases "mem (left + i) \<noteq> mem (right + i)")
      case True
      with \<open>i < len\<close> have "AssertMemoryNotEqual_loop mem left right len i = (False, i)"
        by (subst AssertMemoryNotEqual_loop.simps) simp
      with True \<open>i < len\<close> "1.prems" show ?thesis by auto
    next
      case False
      with \<open>i < len\<close>
      have "AssertMemoryNotEqual_loop mem left right len i =
            AssertMemoryNotEqual_loop mem left right len (Suc i)"
        by (subst AssertMemoryNotEqual_loop.simps) simp
      with "1.prems"
      have step: "AssertMemoryNotEqual_loop mem left right len (Suc i) = (eq, k)" by simp
      have "Suc i \<le> len" using \<open>i < len\<close> by simp
      from "1.IH" [OF \<open>i < len\<close> False step this]
      have ih: "Suc i \<le> k" "k \<le> len"
        "\<forall>j. Suc i \<le> j \<and> j < k \<longrightarrow> mem (left + j) = mem (right + j)"
        "if eq then k = len else k < len \<and> mem (left + k) \<noteq> mem (right + k)"
        by simp_all
      have "\<forall>j. i \<le> j \<and> j < k \<longrightarrow> mem (left + j) = mem (right + j)"
      proof (intro allI impI)
        fix j assume "i \<le> j \<and> j < k"
        then consider "j = i" | "Suc i \<le> j \<and> j < k" by fastforce
        then show "mem (left + j) = mem (right + j)"
          using False ih(3) by cases auto
      qed
      with ih show ?thesis by simp
    qed
  qed
qed

lemma AssertMemoryEqual_loop_equal:
  "fst (AssertMemoryEqual_loop mem l r n 0) = (\<forall>i<n. mem (l + i) = mem (r + i))"
proof -
  obtain eq k where res: "AssertMemoryEqual_loop mem l r n 0 = (eq, k)"
    by (cases "AssertMemoryEqual_loop mem l r n 0")
  from AssertMemoryEqual_loop_spec [OF res]
  have "\<forall>j. j < k \<longrightarrow> mem (l + j) = mem (r + j)"
    and "if eq then k = n else k < n \<and> mem (l + k) \<noteq> mem (r + k)"
    by simp_all
  then have "eq = (\<forall>i<n. mem (l + i) = mem (r + i))"
    by (cases eq) auto
  with res show ?thesis by simp
qed

lemma AssertMemoryNotEqual_loop_equal:
  "fst (AssertMemoryNotEqual_loop mem l r n 0) = (\<forall>i<n. mem (l + i) = mem (r + i))"
proof -
  obtain eq k where res: "AssertMemoryNotEqual_loop mem l r n 0 = (eq, k)"
    by (cases "AssertMemoryNotEqual_loop mem l r n 0")
  from AssertMemoryNotEqual_loop_spec [OF res]
  have "\<forall>j. j < k \<longrightarrow> mem (l + j) = mem (r + j)"
    and "if eq then k = n else k < n \<and> mem (l + k) \<noteq> mem (r + k)"
    by simp_all
  then have "eq = (\<forall>i<n. mem (l + i) = mem (r + i))"
    by (cases eq) auto
  with res show ?thesis by simp
qed

lemma AssertMemoryEqual_result:
  "fst (AssertMemoryEqual g mem file line p q n) = (\<forall>i<n. mem (p + i) = mem (q + i))"
  by (simp add: AssertMemoryEqual_def Let_def AssertMemoryEqual_loop_equal)

lemma AssertMemoryNotEqual_result:
  "fst (AssertMemoryNotEqual g mem file line p q n) = (\<exists>i<n. mem (p + i) \<noteq> mem (q + i))"
  by (simp add: AssertMemoryNotEqual_def Let_def AssertMemoryNotEqual_loop_equal)

text \<open>
  Claim C3. For two byte ranges of the same length \<open>n\<close>, \<^verbatim>\<open>AssertMemoryEqual\<close>
  returns true exactly when all \<open>n\<close> pairs of corresponding octets are equal, and
  \<^verbatim>\<open>AssertMemoryNotEqual\<close> returns true exactly when some pair differs. The loop
  compares octet by octet and is left at the first mismatch: when it ends with
  \<open>equal = false\<close> its index \<open>k\<close> is a mismatch and every index below \<open>k\<close> is a
  match; otherwise it ran to \<open>n\<close>. In particular: ranges that differ in exactly one octet
  fail equality and pass inequality, identical ranges pass equality and fail inequality,
  and for \<open>n = 0\<close> equality succeeds.
\<close>

theorem memory_assertions_compare_octets:
  "(fst (AssertMemoryEqual g mem file line p q n) \<longleftrightarrow> (\<forall>i<n. mem (p + i) = mem (q + i))) \<and>
   (fst (AssertMemoryNotEqual g mem file line p q n) \<longleftrightarrow> (\<exists>i<n. mem (p + i) \<noteq> mem (q + i))) \<and>
   (\<forall>eq k. AssertMemoryEqual_loop mem p q n 0 = (eq, k) \<longrightarrow>
      (\<forall>j<k. mem (p + j) = mem (q + j)) \<and>
      (if eq then k = n else k < n \<and> mem (p + k) \<noteq> mem (q + k))) \<and>
   (\<forall>eq k. AssertMemoryNotEqual_loop mem p q n 0 = (eq, k) \<longrightarrow>
      (\<forall>j<k. mem (p + j) = mem (q + j)) \<and>
      (if eq then k = n else k < n \<and> mem (p + k) \<noteq> mem (q + k))) \<and>
   ((\<exists>!i. i < n \<and> mem (p + i) \<noteq> mem (q + i)) \<longrightarrow>
      \<not> fst (AssertMemoryEqual g mem file line p q n) \<and>
      fst (AssertMemoryNotEqual g mem file line p q n)) \<and>
   ((\<forall>i<n. mem (p + i) = mem (q + i)) \<longrightarrow>
      fst (AssertMemoryEqual g mem file line p q n) \<and>
      \<not> fst (AssertMemoryNotEqual g mem file line p q n)) \<and>
   fst (AssertMemoryEqual g mem file line p q 0)"
proof (intro conjI)
  show "fst (AssertMemoryEqual g mem file line p q n) \<longleftrightarrow> (\<forall>i<n. mem (p + i) = mem (q + i))"
    by (rule AssertMemoryEqual_result)
  show "fst (AssertMemoryNotEqual g mem file line p q n) \<longleftrightarrow> (\<exists>i<n. mem (p + i) \<noteq> mem (q + i))"
    by (rule AssertMemoryNotEqual_result)
  show "\<forall>eq k. AssertMemoryEqual_loop mem p q n 0 = (eq, k) \<longrightarrow>
      (\<forall>j<k. mem (p + j) = mem (q + j)) \<and>
      (if eq then k = n else k < n \<and> mem (p + k) \<noteq> mem (q + k))"
  proof (intro allI impI)
    fix eq k assume "AssertMemoryEqual_loop mem p q n 0 = (eq, k)"
    from AssertMemoryEqual_loop_spec [OF this]
    show "(\<forall>j<k. mem (p + j) = mem (q + j)) \<and>
      (if eq then k = n else k < n \<and> mem (p + k) \<noteq> mem (q + k))"
      by simp
  qed
  show "\<forall>eq k. AssertMemoryNotEqual_loop mem p q n 0 = (eq, k) \<longrightarrow>
      (\<forall>j<k. mem (p + j) = mem (q + j)) \<and>
      (if eq then k = n else k < n \<and> mem (p + k) \<noteq> mem (q + k))"
  proof (intro allI impI)
    fix eq k assume "AssertMemoryNotEqual_loop mem p q n 0 = (eq, k)"
    from AssertMemoryNotEqual_loop_spec [OF this]
    show "(\<forall>j<k. mem (p + j) = mem (q + j)) \<and>
      (if eq then k = n else k < n \<and> mem (p + k) \<noteq> mem (q + k))"
      by simp
  qed
  show "(\<exists>!i. i < n \<and> mem (p + i) \<noteq> mem (q + i)) \<longrightarrow>
      \<not> fst (AssertMemoryEqual g mem file line p q n) \<and>
      fst (AssertMemoryNotEqual g mem file line p q n)"
    unfolding AssertMemoryEqual_result AssertMemoryNotEqual_result by blast
  show "(\<forall>i<n. mem (p + i) = mem (q + i)) \<longrightarrow>
      fst (AssertMemoryEqual g mem file line p q n) \<and>
      \<not> fst (AssertMemoryNotEqual g mem file line p q n)"
    unfolding AssertMemoryEqual_result AssertMemoryNotEqual_result by blast
  show "fst (AssertMemoryEqual g mem file line p q 0)"
    unfolding AssertMemoryEqual_result by simp
qed

lemma Memory_Test2_one_mismatch:
  "\<exists>!i. i < 4 \<and> Memory_Test2 (0 + i) \<noteq> Memory_Test2 (4 + i)"
proof (rule ex1I [of _ 3])
  show "(3::nat) < 4 \<and> Memory_Test2 (0 + 3) \<noteq> Memory_Test2 (4 + 3)"
    by (simp add: Memory_Test2_def)
next
  fix i :: nat
  assume a: "i < 4 \<and> Memory_Test2 (0 + i) \<noteq> Memory_Test2 (4 + i)"
  then have "i = 0 \<or> i = 1 \<or> i = 2 \<or> i = 3" by auto
  with a show "i = 3" by (auto simp: Memory_Test2_def)
qed

theorem memory_assertions_compare_octets_witness:
  "\<not> fst (AssertMemoryEqual AssignMessageStrings Memory_Test2 ''test_memory.cpp'' 37 0 4 4) \<and>
   fst (AssertMemoryNotEqual AssignMessageStrings Memory_Test2 ''test_memory.cpp'' 37 0 4 4) \<and>
   AssertMemoryEqual_loop Memory_Test2 0 4 4 0 = (False, 3) \<and>
   fst (AssertMemoryEqual AssignMessageStrings Memory_Test2 ''test_memory.cpp'' 37 0 0 4) \<and>
   \<not> fst (AssertMemoryNotEqual AssignMessageStrings Memory_Test2 ''test_memory.cpp'' 37 0 0 4)"
proof -
  have loop: "AssertMemoryEqual_loop Memory_Test2 0 4 4 0 = (False, 3)"
    by (simp add: AssertMemoryEqual_loop.simps Memory_Test2_def)
  have same: "\<forall>i<4. Memory_Test2 (0 + i) = Memory_Test2 (0 + i)" by simp
  from memory_assertions_compare_octets
         [of AssignMessageStrings Memory_Test2 "''test_memory.cpp''" 37 0 4 4]
       memory_assertions_compare_octets
         [of AssignMessageStrings Memory_Test2 "''test_memory.cpp''" 37 0 0 4]
       Memory_Test2_one_mismatch same loop
  show ?thesis by blast
qed

text \<open>
  Claim C10. On the same arguments, for every pair of addresses and every length
  (zero included), the result of \<^verbatim>\<open>AssertMemoryNotEqual\<close> is the negation of the result
  of \<^verbatim>\<open>AssertMemoryEqual\<close>; so for a zero-length range the inequality assertion fails
  while the equality assertion succeeds.
\<close>

theorem AssertMemoryNotEqual_negates_AssertMemoryEqual:
  "fst (AssertMemoryNotEqual g mem file line p q n) =
     (\<not> fst (AssertMemoryEqual g mem file line p q n)) \<and>
   fst (AssertMemoryEqual g mem file line p q 0) \<and>
   \<not> fst (AssertMemoryNotEqual g mem file line p q 0)"
  by (simp add: AssertMemoryEqual_result AssertMemoryNotEqual_result)

section \<open>Properties of rounding\<close>

lemma round_half_even_error: "\<bar>of_int (round_half_even x) - x\<bar> \<le> 1 / 2"
proof -
  have "of_int \<lfloor>x\<rfloor> \<le> x" "x < of_int \<lfloor>x\<rfloor> + 1" by linarith+
  then show ?thesis
    by (auto simp add: round_half_even_def Let_def)
qed

lemma round_half_even_ge: "of_int n \<le> x \<Longrightarrow> n \<le> round_half_even x"
proof -
  assume "of_int n \<le> x"
  then have "n \<le> \<lfloor>x\<rfloor>" by (simp add: le_floor_iff)
  then show ?thesis by (auto simp add: round_half_even_def Let_def)
qed

lemma round_half_even_of_int: "round_half_even (of_int n) = n"
  by (simp add: round_half_even_def)

lemma floorlog_pos: "0 < n \<Longrightarrow> 1 < b \<Longrightarrow> 0 < floorlog b n"
  by (simp add: floorlog_def)

lemma ilog_bounds:
  assumes "0 < a"
  shows "power_int 2 (ilog 2 a) \<le> a \<and> a < power_int 2 (ilog 2 a + 1)"
proof (cases "1 \<le> a")
  case True
  define n where "n = nat \<lfloor>a\<rfloor>"
  define k where "k = floorlog 2 n"
  from True have fl: "1 \<le> \<lfloor>a\<rfloor>" by (simp add: le_floor_iff)
  then have n: "0 < n" "int n = \<lfloor>a\<rfloor>" by (simp_all add: n_def)
  from floorlog_bounds [of n 2] n have b: "2 ^ (k - 1) \<le> n" "n < 2 ^ k"
    by (simp_all add: k_def)
  from floorlog_pos [of n 2] n have k: "0 < k" by (simp add: k_def)
  have il: "ilog 2 a = int (k - 1)" "ilog 2 a + 1 = int k"
    using True k by (simp_all add: ilog_def n_def k_def)
  have "(2::rat) ^ (k - 1) = of_nat (2 ^ (k - 1))" by simp
  also have "\<dots> \<le> of_nat n" using b(1) by (simp only: of_nat_le_iff)
  also have "\<dots> = of_int \<lfloor>a\<rfloor>" using n(2) by (metis of_int_of_nat_eq)
  also have "\<dots> \<le> a" by simp
  finally have lower: "(2::rat) ^ (k - 1) \<le> a" .
  have "a < of_int \<lfloor>a\<rfloor> + 1" by linarith
  also have "\<dots> = of_nat (Suc n)" using n(2) by (metis of_int_of_nat_eq of_nat_Suc add.commute)
  also have "\<dots> \<le> of_nat (2 ^ k)" using b(2) by (simp only: of_nat_le_iff)
  also have "\<dots> = (2::rat) ^ k" by simp
  finally have upper: "a < (2::rat) ^ k" .
  have "power_int (2::rat) (ilog 2 a) = 2 ^ (k - 1)"
    by (simp only: il(1) power_int_of_nat)
  moreover have "power_int (2::rat) (ilog 2 a + 1) = 2 ^ k"
    by (simp only: il(2) power_int_of_nat)
  ultimately show ?thesis using lower upper by simp
next
  case False
  with assms have a: "0 < a" "a < 1" by simp_all
  define c where "c = 1 / a"
  define m where "m = nat (\<lceil>c\<rceil> - 1)"
  define j where "j = floorlog 2 m"
  from a have c: "1 < c" by (simp add: c_def)
  then have "1 < \<lceil>c\<rceil>" by (simp add: less_ceiling_iff)
  then have m: "0 < m" "int m = \<lceil>c\<rceil> - 1" by (simp_all add: m_def)
  from floorlog_bounds [of m 2] m have b: "2 ^ (j - 1) \<le> m" "m < 2 ^ j"
    by (simp_all add: j_def)
  from floorlog_pos [of m 2] m have j: "0 < j" by (simp add: j_def)
  have il: "ilog 2 a = - int j" "ilog 2 a + 1 = - int (j - 1)"
    using False j by (simp_all add: ilog_def m_def j_def c_def)
  have "c \<le> of_int \<lceil>c\<rceil>" by simp
  also have "\<dots> = of_nat (Suc m)" using m(2)
    by (metis add.commute diff_add_cancel of_int_of_nat_eq of_nat_Suc of_int_add of_int_1)
  also have "\<dots> \<le> of_nat (2 ^ j)" using b(2) by (simp only: of_nat_le_iff)
  also have "\<dots> = (2::rat) ^ j" by simp
  finally have cj: "c \<le> 2 ^ j" .
  have "(2::rat) ^ (j - 1) = of_nat (2 ^ (j - 1))" by simp
  also have "\<dots> \<le> of_nat m" using b(1) by (simp only: of_nat_le_iff)
  also have "\<dots> = of_int (\<lceil>c\<rceil> - 1)" using m(2) by (metis of_int_of_nat_eq)
  also have "\<dots> < c" by (simp add: ceiling_correct)
  finally have jc: "(2::rat) ^ (j - 1) < c" .
  from cj a have lower: "1 / 2 ^ j \<le> a"
    by (simp add: c_def field_simps)
  from jc a have upper: "a < 1 / 2 ^ (j - 1)"
    by (simp add: c_def field_simps)
  have "power_int (2::rat) (ilog 2 a) = 1 / 2 ^ j"
    by (simp only: il(1) power_int_minus_divide power_int_of_nat)
  moreover have "power_int (2::rat) (ilog 2 a + 1) = 1 / 2 ^ (j - 1)"
    by (simp only: il(2) power_int_minus_divide power_int_of_nat)
  ultimately show ?thesis using lower upper by simp
qed


section \<open>Properties of the exception assertions\<close>




section \<open>Properties of the duration format\<close>






section \<open>Properties of registration\<close>

text \<open>
  Claim C8. \<^verbatim>\<open>RegisterTest\<close> always returns (no exception leaves it). When no allocation
  of the call fails, the tuple (name, test, timeout) is appended at the end of the
  sequence of registered tests, the identifier returned is the new size of the sequence,
  which is not 0, and \<open>failed_registrations\<close> is unchanged. When an allocation fails
  (\<^verbatim>\<open>make_unique\<close> on the first call, or \<^verbatim>\<open>emplace_back\<close>), the exception is caught: the
  sequence of registered tests is unchanged, \<open>failed_registrations\<close> is incremented by one
  and the identifier returned is 0.
\<close>

theorem RegisterTest_appends_or_counts:
  "(\<not> ((Unit_Tests s = None \<and> make_unique_throws st) \<or> emplace_back_throws st) \<longrightarrow>
      fst (RegisterTest st name test timeout s) \<noteq> 0 \<and>
      fst (RegisterTest st name test timeout s) =
        length (registered (snd (RegisterTest st name test timeout s))) \<and>
      registered (snd (RegisterTest st name test timeout s)) =
        registered s @ [(name, test, timeout)] \<and>
      failed_registrations (snd (RegisterTest st name test timeout s)) =
        failed_registrations s) \<and>
   ((Unit_Tests s = None \<and> make_unique_throws st) \<or> emplace_back_throws st \<longrightarrow>
      fst (RegisterTest st name test timeout s) = 0 \<and>
      registered (snd (RegisterTest st name test timeout s)) = registered s \<and>
      failed_registrations (snd (RegisterTest st name test timeout s)) =
        failed_registrations s + 1) \<and>
   Unit_Test_Exclusions (snd (RegisterTest st name test timeout s)) = Unit_Test_Exclusions s"
proof (cases "Unit_Tests s")
  case None
  then show ?thesis
    by (simp add: RegisterTest_def RegisterTest_try_def registered_def)
next
  case (Some tests)
  then show ?thesis
    by (simp add: RegisterTest_def RegisterTest_try_def registered_def)
qed

theorem RegisterTest_appends_or_counts_witness:
  "fst (RegisterTest \<lparr>make_unique_throws = False, emplace_back_throws = False\<rparr>
     ''Memory::Test1'' (Target Returns) Default_Timeout initial_registry) = 1 \<and>
   registered
     (snd (RegisterTest \<lparr>make_unique_throws = False, emplace_back_throws = False\<rparr>
       ''Memory::Test1'' (Target Returns) Default_Timeout initial_registry)) =
     [(''Memory::Test1'', Target Returns, 600)] \<and>
   failed_registrations
     (snd (RegisterTest \<lparr>make_unique_throws = False, emplace_back_throws = False\<rparr>
       ''Memory::Test1'' (Target Returns) Default_Timeout initial_registry)) = 0 \<and>
   fst (RegisterTest \<lparr>make_unique_throws = False, emplace_back_throws = True\<rparr>
     ''Memory::Test1'' (Target Returns) Default_Timeout initial_registry) = 0 \<and>
   registered
     (snd (RegisterTest \<lparr>make_unique_throws = False, emplace_back_throws = True\<rparr>
       ''Memory::Test1'' (Target Returns) Default_Timeout initial_registry)) = [] \<and>
   failed_registrations
     (snd (RegisterTest \<lparr>make_unique_throws = False, emplace_back_throws = True\<rparr>
       ''Memory::Test1'' (Target Returns) Default_Timeout initial_registry)) = 1"
proof -
  let ?ok = "\<lparr>make_unique_throws = False, emplace_back_throws = False\<rparr>"
  let ?bad = "\<lparr>make_unique_throws = False, emplace_back_throws = True\<rparr>"
  let ?s = "initial_registry :: std_function registry"
  have start: "registered ?s = [] \<and> failed_registrations ?s = 0"
    by (simp add: initial_registry_def registered_def)
  have succeeds: "\<not> ((Unit_Tests ?s = None \<and> make_unique_throws ?ok) \<or> emplace_back_throws ?ok)"
    by simp
  have fails: "(Unit_Tests ?s = None \<and> make_unique_throws ?bad) \<or> emplace_back_throws ?bad"
    by simp
  from RegisterTest_appends_or_counts
         [of ?s ?ok "''Memory::Test1''" "Target Returns" Default_Timeout] succeeds
  have "fst (RegisterTest ?ok ''Memory::Test1'' (Target Returns) Default_Timeout ?s) =
          length (registered
            (snd (RegisterTest ?ok ''Memory::Test1'' (Target Returns) Default_Timeout ?s))) \<and>
        registered (snd (RegisterTest ?ok ''Memory::Test1'' (Target Returns) Default_Timeout ?s)) =
          registered ?s @ [(''Memory::Test1'', Target Returns, Default_Timeout)] \<and>
        failed_registrations
          (snd (RegisterTest ?ok ''Memory::Test1'' (Target Returns) Default_Timeout ?s)) =
          failed_registrations ?s"
    by blast
  with start
  have good: "fst (RegisterTest ?ok ''Memory::Test1'' (Target Returns) Default_Timeout ?s) = 1 \<and>
        registered (snd (RegisterTest ?ok ''Memory::Test1'' (Target Returns) Default_Timeout ?s)) =
          [(''Memory::Test1'', Target Returns, 600)] \<and>
        failed_registrations
          (snd (RegisterTest ?ok ''Memory::Test1'' (Target Returns) Default_Timeout ?s)) = 0"
    by (simp add: Default_Timeout_def)
  from RegisterTest_appends_or_counts
         [of ?s ?bad "''Memory::Test1''" "Target Returns" Default_Timeout] fails
  have "fst (RegisterTest ?bad ''Memory::Test1'' (Target Returns) Default_Timeout ?s) = 0 \<and>
        registered (snd (RegisterTest ?bad ''Memory::Test1'' (Target Returns) Default_Timeout ?s)) =
          registered ?s \<and>
        failed_registrations
          (snd (RegisterTest ?bad ''Memory::Test1'' (Target Returns) Default_Timeout ?s)) =
          failed_registrations ?s + 1"
    by blast
  with start
  have bad: "fst (RegisterTest ?bad ''Memory::Test1'' (Target Returns) Default_Timeout ?s) = 0 \<and>
        registered (snd (RegisterTest ?bad ''Memory::Test1'' (Target Returns) Default_Timeout ?s)) =
          [] \<and>
        failed_registrations
          (snd (RegisterTest ?bad ''Memory::Test1'' (Target Returns) Default_Timeout ?s)) = 1"
    by simp
  from good bad show ?thesis by blast
qed


section \<open>Properties of the runner\<close>




lemma for_loop_append:
  "for_loop exclusions (pre @ post) r =
     (case for_loop exclusions pre r of
        (r', None) \<Rightarrow> for_loop exclusions post r'
      | (r', Some e) \<Rightarrow> (r', Some e))"
proof (induction pre arbitrary: r)
  case Nil
  show ?case by simp
next
  case (Cons t pre)
  show ?case
  proof (cases "run_test exclusions t r")
    case (Pair r' e)
    then show ?thesis using Cons.IH [of r'] by (cases e) simp_all
  qed
qed

lemma run_test_goes_on_invoked:
  assumes "run_test exclusions t r = (r', None)"
  shows "invoked r' = invoked r @ (if exclude_test exclusions (fst t) then [] else [fst t])"
proof (cases t)
  case (fields name test timeout)
  with assms show ?thesis
    by (auto simp add: run_test_def Let_def split: if_splits option.splits)
qed

lemma for_loop_completed_invoked:
  "for_loop exclusions tests r = (r', None) \<Longrightarrow>
   invoked r' = invoked r @ filter (\<lambda>n. \<not> exclude_test exclusions n) (map fst tests)"
proof (induction tests arbitrary: r)
  case Nil
  then show ?case by simp
next
  case (Cons t tests)
  show ?case
  proof (cases "run_test exclusions t r")
    case (Pair r1 e)
    show ?thesis
    proof (cases e)
      case None
      with Pair Cons.prems have "for_loop exclusions tests r1 = (r', None)" by simp
      from Cons.IH [OF this] run_test_goes_on_invoked [of exclusions t r r1] Pair None
      show ?thesis by simp
    next
      case (Some x)
      with Pair Cons.prems show ?thesis by simp
    qed
  qed
qed







lemma main_runs_loop:
  "Unit_Tests g = Some ts \<Longrightarrow> ts \<noteq> [] \<Longrightarrow> failed_registrations g = 0 \<Longrightarrow>
   main g p = after_loop (for_loop (Unit_Test_Exclusions g) ts (loop_entry g p))"
  by (simp add: main_def registered_def)

lemma EXIT_FAILURE_nonzero: "EXIT_FAILURE \<noteq> 0"
  by (simp add: EXIT_FAILURE_def)

lemmas runner_defs =
  run_test_def exclude_test_def loop_entry_def after_loop_def main_def registered_def
  print_def left_def worker_def main_catch_def FriendlyDuration_def duration_cast_def
  PrintAssertFailed_def Let_def


text \<open>
  Claim C1. Suppose the loop comes to a registered test that is not excluded (every test
  before it was excluded or completed in time without failure), its worker thread
  starts, the wait does not time out and the worker ends, and \<open>Test_Failed\<close> is then
  set. Then \<^verbatim>\<open>main\<close> returns \<^verbatim>\<open>EXIT_FAILURE\<close>, which is not 0, at once: the tests that
  were executed are the non-excluded tests up to and including this one and no test
  registered after it, and the output ends with what the worker wrote, so neither a
  duration for this test nor the summary line is printed.
\<close>

theorem failed_test_stops_the_run:
  assumes tests: "Unit_Tests g = Some (pre @ (name, test, timeout) # post)"
    and regs: "failed_registrations g = 0"
    and before: "for_loop (Unit_Test_Exclusions g) pre (loop_entry g p) = (r, None)"
    and incl: "\<not> exclude_test (Unit_Test_Exclusions g) name"
    and p1: "p1 = print [Str ''Running test '', Str name, Flush] (proc r)"
    and run: "run = test (Test_Failed p1) (user p1)"
    and started: "thread_error run = None"
    and in_time: "wait_for run = cv_status_no_timeout"
    and signalled: "worker (body run) (left run p1) = Some p2"
    and failed: "Test_Failed p2"
  shows "main g p = (r\<lparr>invoked := invoked r @ [name], proc := p2\<rparr>, Returned EXIT_FAILURE) \<and>
    EXIT_FAILURE \<noteq> 0 \<and>
    invoked (fst (main g p)) =
      filter (\<lambda>n. \<not> exclude_test (Unit_Test_Exclusions g) n) (map fst pre) @ [name] \<and>
    cout (proc (fst (main g p))) = cout p2"
proof -
  let ?x = "Unit_Test_Exclusions g"
  have step: "run_test ?x (name, test, timeout) r =
      (r\<lparr>invoked := invoked r @ [name], proc := p2\<rparr>, Some (Returned EXIT_FAILURE))"
    using incl started in_time signalled failed
    unfolding run_test_def p1 run by (simp add: Let_def)
  have "for_loop ?x (pre @ (name, test, timeout) # post) (loop_entry g p) =
      (r\<lparr>invoked := invoked r @ [name], proc := p2\<rparr>, Some (Returned EXIT_FAILURE))"
    by (simp add: for_loop_append before step)
  with main_runs_loop [OF tests _ regs, of p]
  have result: "main g p =
      (r\<lparr>invoked := invoked r @ [name], proc := p2\<rparr>, Returned EXIT_FAILURE)"
    by (simp add: after_loop_def)
  from for_loop_completed_invoked [OF before]
  have "invoked r = filter (\<lambda>n. \<not> exclude_test ?x n) (map fst pre)"
    by (simp add: loop_entry_def)
  with result show ?thesis by (simp add: EXIT_FAILURE_nonzero)
qed


lemma Nothing_excluded_before:
  "for_loop None [(''Miscellaneous::TestToRun'', passing, 600)]
     (loop_entry Nothing_excluded at_start) = (after_TestToRun 4, None)"
  by (simp add: runner_defs Nothing_excluded_def Miscellaneous_def at_start_def passing_def
      after_TestToRun_def AssignMessageStrings_def)

theorem failed_test_stops_the_run_witness:
  "main Nothing_excluded at_start =
     (\<lparr>proc =
        \<lparr>Test_Failed = True, texts = AssignMessageStrings,
         cout = [Str ''Total numbers of tests: '', Num 4, Endl,
                 Str ''Running test '', Str ''Miscellaneous::TestToRun'', Flush,
                 Str '' ('', Dbl (3 / 2), Str '' us'', Str '')'', Endl,
                 Str ''Running test '', Str ''Miscellaneous::TestToExclude'', Flush,
                 Endl, Str ''Assertion failed at '', Str ''test_miscellaneous.cpp'',
                 Str '':'', Num 30, Endl],
         user = 1\<rparr>,
       total_duration = 1500,
       invoked = [''Miscellaneous::TestToRun'', ''Miscellaneous::TestToExclude'']\<rparr>,
      Returned EXIT_FAILURE) \<and>
   EXIT_FAILURE \<noteq> 0"
proof -
  let ?p1 = "print [Str ''Running test '', Str ''Miscellaneous::TestToExclude'', Flush]
               (proc (after_TestToRun 4))"
  let ?run = "failing (Test_Failed ?p1) (user ?p1)"
  have tests: "Unit_Tests Nothing_excluded =
      Some ([(''Miscellaneous::TestToRun'', passing, 600)] @
            (''Miscellaneous::TestToExclude'', failing, 600) #
            [(''Miscellaneous::AnotherTestToRun'', passing, 600),
             (''Miscellaneous::SecondTestToExclude'', failing, 600)])"
    by (simp add: Nothing_excluded_def Miscellaneous_def)
  have regs: "failed_registrations Nothing_excluded = 0"
    by (simp add: Nothing_excluded_def Miscellaneous_def)
  have excl: "Unit_Test_Exclusions Nothing_excluded = None"
    by (simp add: Nothing_excluded_def)
  have before: "for_loop (Unit_Test_Exclusions Nothing_excluded)
      [(''Miscellaneous::TestToRun'', passing, 600)] (loop_entry Nothing_excluded at_start) =
      (after_TestToRun 4, None)"
    by (simp only: excl Nothing_excluded_before)
  have incl: "\<not> exclude_test (Unit_Test_Exclusions Nothing_excluded)
      ''Miscellaneous::TestToExclude''"
    by (simp add: excl exclude_test_def)
  have started: "thread_error ?run = None" by (simp add: failing_def)
  have in_time: "wait_for ?run = cv_status_no_timeout" by (simp add: failing_def)
  have signalled: "worker (body ?run) (left ?run ?p1) = Some (left ?run ?p1)"
    by (simp add: failing_def worker_def)
  have failed: "Test_Failed (left ?run ?p1)" by (simp add: failing_def left_def)
  from failed_test_stops_the_run
         [OF tests regs before incl refl refl started in_time signalled failed]
  have "main Nothing_excluded at_start =
      ((after_TestToRun 4)\<lparr>invoked := invoked (after_TestToRun 4) @
                                [''Miscellaneous::TestToExclude''],
                             proc := left ?run ?p1\<rparr>,
       Returned EXIT_FAILURE) \<and> EXIT_FAILURE \<noteq> 0"
    by blast
  then show ?thesis
    by (simp add: after_TestToRun_def failing_def left_def print_def PrintAssertFailed_def)
qed


text \<open>
  Claim C2. Suppose the loop comes to a registered test that is not excluded, its worker
  thread starts, and the timed wait for the test's timeout (in seconds) expires. Then the
  runner prints the diagnostic with the name of the test and the value of the timeout
  and calls \<^verbatim>\<open>std::exit(EXIT_FAILURE)\<close>, with \<^verbatim>\<open>EXIT_FAILURE\<close> not 0: the diagnostic is the
  end of the output, and the tests that were started are the non-excluded tests up to
  and including this one, none registered after it.
\<close>

theorem timed_out_test_terminates_the_process:
  assumes tests: "Unit_Tests g = Some (pre @ (name, test, timeout) # post)"
    and regs: "failed_registrations g = 0"
    and before: "for_loop (Unit_Test_Exclusions g) pre (loop_entry g p) = (r, None)"
    and incl: "\<not> exclude_test (Unit_Test_Exclusions g) name"
    and p1: "p1 = print [Str ''Running test '', Str name, Flush] (proc r)"
    and run: "run = test (Test_Failed p1) (user p1)"
    and started: "thread_error run = None"
    and expired: "wait_for run = cv_status_timeout"
  shows "main g p =
      (r\<lparr>invoked := invoked r @ [name],
         proc := print [Endl, Str (''Test '' @ [CHR 0x22]), Str name,
                        Str (CHR 0x22 # '' exceeded ''), Num (unat timeout),
                        Str '' second timeout; terminating'', Endl] (left run p1)\<rparr>,
       Exited EXIT_FAILURE) \<and>
    EXIT_FAILURE \<noteq> 0 \<and>
    invoked (fst (main g p)) =
      filter (\<lambda>n. \<not> exclude_test (Unit_Test_Exclusions g) n) (map fst pre) @ [name] \<and>
    cout (proc (fst (main g p))) =
      cout (proc r) @ [Str ''Running test '', Str name, Flush] @ printed run @
      [Endl, Str (''Test '' @ [CHR 0x22]), Str name, Str (CHR 0x22 # '' exceeded ''),
       Num (unat timeout), Str '' second timeout; terminating'', Endl]"
proof -
  let ?x = "Unit_Test_Exclusions g"
  let ?end = "r\<lparr>invoked := invoked r @ [name],
         proc := print [Endl, Str (''Test '' @ [CHR 0x22]), Str name,
                        Str (CHR 0x22 # '' exceeded ''), Num (unat timeout),
                        Str '' second timeout; terminating'', Endl] (left run p1)\<rparr>"
  have step: "run_test ?x (name, test, timeout) r = (?end, Some (Exited EXIT_FAILURE))"
    using incl started expired
    unfolding run_test_def p1 run by (simp add: Let_def)
  have "for_loop ?x (pre @ (name, test, timeout) # post) (loop_entry g p) =
      (?end, Some (Exited EXIT_FAILURE))"
    by (simp add: for_loop_append before step)
  with main_runs_loop [OF tests _ regs, of p]
  have result: "main g p = (?end, Exited EXIT_FAILURE)"
    by (simp add: after_loop_def)
  from for_loop_completed_invoked [OF before]
  have "invoked r = filter (\<lambda>n. \<not> exclude_test ?x n) (map fst pre)"
    by (simp add: loop_entry_def)
  with result show ?thesis
    by (simp add: EXIT_FAILURE_nonzero print_def left_def p1)
qed


lemma Stalled_before:
  "for_loop None [(''Miscellaneous::TestToRun'', passing, 600)]
     (loop_entry Stalled at_start) = (after_TestToRun 3, None)"
  by (simp add: runner_defs Stalled_def at_start_def passing_def
      after_TestToRun_def AssignMessageStrings_def)

theorem timed_out_test_terminates_the_process_witness:
  "main Stalled at_start =
     (\<lparr>proc =
        \<lparr>Test_Failed = False, texts = AssignMessageStrings,
         cout = [Str ''Total numbers of tests: '', Num 3, Endl,
                 Str ''Running test '', Str ''Miscellaneous::TestToRun'', Flush,
                 Str '' ('', Dbl (3 / 2), Str '' us'', Str '')'', Endl,
                 Str ''Running test '', Str ''Miscellaneous::Stalls'', Flush,
                 Endl, Str (''Test '' @ [CHR 0x22]), Str ''Miscellaneous::Stalls'',
                 Str (CHR 0x22 # '' exceeded ''), Num 2,
                 Str '' second timeout; terminating'', Endl],
         user = 0\<rparr>,
       total_duration = 1500,
       invoked = [''Miscellaneous::TestToRun'', ''Miscellaneous::Stalls'']\<rparr>,
      Exited EXIT_FAILURE) \<and>
   EXIT_FAILURE \<noteq> 0"
proof -
  let ?p1 = "print [Str ''Running test '', Str ''Miscellaneous::Stalls'', Flush]
               (proc (after_TestToRun 3))"
  let ?run = "hanging (Test_Failed ?p1) (user ?p1)"
  have tests: "Unit_Tests Stalled =
      Some ([(''Miscellaneous::TestToRun'', passing, 600)] @
            (''Miscellaneous::Stalls'', hanging, 2) #
            [(''Miscellaneous::AnotherTestToRun'', passing, 600)])"
    by (simp add: Stalled_def)
  have regs: "failed_registrations Stalled = 0" by (simp add: Stalled_def)
  have excl: "Unit_Test_Exclusions Stalled = None" by (simp add: Stalled_def)
  have before: "for_loop (Unit_Test_Exclusions Stalled)
      [(''Miscellaneous::TestToRun'', passing, 600)] (loop_entry Stalled at_start) =
      (after_TestToRun 3, None)"
    by (simp only: excl Stalled_before)
  have incl: "\<not> exclude_test (Unit_Test_Exclusions Stalled) ''Miscellaneous::Stalls''"
    by (simp add: excl exclude_test_def)
  have started: "thread_error ?run = None" by (simp add: hanging_def)
  have expired: "wait_for ?run = cv_status_timeout" by (simp add: hanging_def)
  from timed_out_test_terminates_the_process
         [OF tests regs before incl refl refl started expired]
  have "main Stalled at_start =
      ((after_TestToRun 3)\<lparr>invoked := invoked (after_TestToRun 3) @ [''Miscellaneous::Stalls''],
         proc := print [Endl, Str (''Test '' @ [CHR 0x22]), Str ''Miscellaneous::Stalls'',
                        Str (CHR 0x22 # '' exceeded ''), Num (unat (2 :: 32 word)),
                        Str '' second timeout; terminating'', Endl] (left ?run ?p1)\<rparr>,
       Exited EXIT_FAILURE) \<and> EXIT_FAILURE \<noteq> 0"
    by blast
  then show ?thesis
    by (simp add: after_TestToRun_def hanging_def left_def print_def)
qed


text \<open>
  Claim C7. If no test is registered (the vector is not allocated, or it is empty), or
  if \<open>failed_registrations\<close> is not 0, \<^verbatim>\<open>main\<close> prints one diagnostic line and returns
  \<^verbatim>\<open>EXIT_FAILURE\<close>, which is not 0, without having started any test: nothing else is
  printed and the flag and the rest of the state are as they were.
\<close>

theorem no_tests_or_failed_registrations_abort:
  assumes "Unit_Tests g = None \<or> Unit_Tests g = Some [] \<or> failed_registrations g \<noteq> 0"
  shows "snd (main g p) = Returned EXIT_FAILURE \<and> EXIT_FAILURE \<noteq> 0 \<and>
    invoked (fst (main g p)) = [] \<and>
    user (proc (fst (main g p))) = user p \<and>
    Test_Failed (proc (fst (main g p))) = Test_Failed p \<and>
    cout (proc (fst (main g p))) =
      cout p @
      (if Unit_Tests g = None \<or> Unit_Tests g = Some []
       then [Str ''Error: there are no registered tests'', Endl]
       else [Str ''Error: '', Num (unat (failed_registrations g)),
             Str '' tests failed to register to get excluded'', Endl])"
proof (cases "Unit_Tests g")
  case None
  then show ?thesis
    by (simp add: main_def print_def EXIT_FAILURE_nonzero)
next
  case (Some ts)
  show ?thesis
  proof (cases "ts = []")
    case True
    with Some show ?thesis
      by (simp add: main_def registered_def print_def EXIT_FAILURE_nonzero)
  next
    case False
    with Some assms have "failed_registrations g \<noteq> 0" by simp
    with Some False show ?thesis
      by (simp add: main_def registered_def print_def EXIT_FAILURE_nonzero)
  qed
qed


theorem no_tests_or_failed_registrations_abort_witness:
  "main (initial_registry :: nat test_function registry) at_start =
     (\<lparr>proc = at_start\<lparr>cout := [Str ''Error: there are no registered tests'', Endl]\<rparr>,
       total_duration = 0, invoked = []\<rparr>,
      Returned EXIT_FAILURE) \<and>
   snd (main (Miscellaneous\<lparr>failed_registrations := 1\<rparr>) at_start) = Returned EXIT_FAILURE \<and>
   invoked (fst (main (Miscellaneous\<lparr>failed_registrations := 1\<rparr>) at_start)) = [] \<and>
   cout (proc (fst (main (Miscellaneous\<lparr>failed_registrations := 1\<rparr>) at_start))) =
     [Str ''Error: '', Num 1, Str '' tests failed to register to get excluded'', Endl]"
proof -
  have none: "Unit_Tests (initial_registry :: nat test_function registry) = None \<or>
      Unit_Tests (initial_registry :: nat test_function registry) = Some [] \<or>
      failed_registrations (initial_registry :: nat test_function registry) \<noteq> 0"
    by (simp add: initial_registry_def)
  have one: "Unit_Tests (Miscellaneous\<lparr>failed_registrations := 1\<rparr>) = None \<or>
      Unit_Tests (Miscellaneous\<lparr>failed_registrations := 1\<rparr>) = Some [] \<or>
      failed_registrations (Miscellaneous\<lparr>failed_registrations := 1\<rparr>) \<noteq> 0"
    by simp
  have first: "main (initial_registry :: nat test_function registry) at_start =
     (\<lparr>proc = at_start\<lparr>cout := [Str ''Error: there are no registered tests'', Endl]\<rparr>,
       total_duration = 0, invoked = []\<rparr>,
      Returned EXIT_FAILURE)"
    by (simp add: main_def initial_registry_def print_def at_start_def)
  from no_tests_or_failed_registrations_abort [OF none, of at_start]
       no_tests_or_failed_registrations_abort [OF one, of at_start] first
  show ?thesis
    by (simp add: Miscellaneous_def at_start_def)
qed









end
